theory Spec2Isabelle
  imports Main
begin

section \<open>Values, model instances and the global state\<close>

text \<open>
  Python objects are referred to by reference. Model instances live in an object heap
  \<open>objs\<close>; a reference always denotes a live object, so the heap is a total function.
  Manager objects are allocated by the descriptors and live in the list \<open>managers\<close>;
  the reference of a manager is its index there.
\<close>

type_synonym ref = nat

datatype val = VNone | VInt int | VStr string | VTime nat | VRef ref

text \<open>
  Modelled from the spec: the Model layer (not part of \<open>manager.py\<close>). An instance is an
  opaque record with an identity \<open>pk\<close>, the name of its type and named fields, among them
  the timestamps \<open>created\<close> and \<open>updated\<close> once it is added. \<open>truthy\<close> is the value of
  \<open>bool(x)\<close>, which the class of the instance decides through \<open>__bool__\<close> or \<open>__len__\<close>
  and which is true when it defines neither.
\<close>

record inst =
  cls :: string
  pk :: int
  truthy :: bool
  attrs :: "string \<rightharpoonup> val"

text \<open>A model class: the class object and its \<open>__name__\<close>.\<close>

record model =
  model_id :: nat
  name :: string

text \<open>
  An object of class \<open>Manager\<close> has the single field \<open>self.model\<close>. An object of the local
  class \<open>RelatedManager\<close>, declared inside \<open>RelatedManagerDescriptor.__get__\<close>, has the same
  field and its methods close over the variable \<open>instance\<close> of that call.
\<close>

datatype manager = Manager model | RelatedManager model ref

fun manager_model :: "manager \<Rightarrow> model" where
  "manager_model (Manager m) = m"
| "manager_model (RelatedManager m i) = m"

datatype error =
    AttributeError string
  | DoesNotExistError
  | MultipleObjectsError
  | NotFoundError

text \<open>
  \<open>stores\<close> is the dictionary behind \<open>ModelStoreMapping\<close>. A collection is a mutable list
  that the mapping never rebinds, so a reference to a collection is its key.
  \<open>str_lower\<close> is Python's built-in \<open>str.lower\<close>: it is not code of the repository and
  covers all of Unicode, so it is a parameter of the state, and the theorems hold
  whatever function it is.
\<close>

type_synonym store_ref = string

record world =
  objs :: "ref \<Rightarrow> inst"
  stores :: "string \<rightharpoonup> ref list"
  managers :: "manager list"
  str_lower :: "string \<Rightarrow> string"

definition getattr :: "inst \<Rightarrow> string \<Rightarrow> val option" where
  "getattr x n = (if n = ''pk'' then Some (VInt (pk x)) else attrs x n)"

definition setattr :: "ref \<Rightarrow> string \<Rightarrow> val \<Rightarrow> world \<Rightarrow> world" where
  "setattr r n v s = s\<lparr>objs := (objs s)(r := (objs s r)\<lparr>attrs := (attrs (objs s r))(n \<mapsto> v)\<rparr>)\<rparr>"

section \<open>The object store\<close>

text \<open>
  Modelled from the spec: \<open>ModelStoreMapping.get\<close> of \<open>reobject/models/store.py\<close>:
  the collection of a model name, created empty if absent.
\<close>

definition ModelStoreMapping_get :: "string \<Rightarrow> world \<Rightarrow> store_ref \<times> world" where
  "ModelStoreMapping_get n s =
     (case stores s n of
        None \<Rightarrow> (n, s\<lparr>stores := (stores s)(n \<mapsto> [])\<rparr>)
      | Some xs \<Rightarrow> (n, s))"

definition collection :: "world \<Rightarrow> store_ref \<Rightarrow> ref list" where
  "collection s st = (case stores s st of None \<Rightarrow> [] | Some xs \<Rightarrow> xs)"

text \<open>Modelled from the spec: the collection's \<open>append\<close>, \<open>clear\<close> and \<open>remove\<close> (by identity).\<close>

definition store_append :: "store_ref \<Rightarrow> ref \<Rightarrow> world \<Rightarrow> world" where
  "store_append st x s = s\<lparr>stores := (stores s)(st \<mapsto> collection s st @ [x])\<rparr>"

definition store_clear :: "store_ref \<Rightarrow> world \<Rightarrow> world" where
  "store_clear st s = s\<lparr>stores := (stores s)(st \<mapsto> [])\<rparr>"

definition store_remove :: "store_ref \<Rightarrow> ref \<Rightarrow> world \<Rightarrow> (error + unit) \<times> world" where
  "store_remove st x s =
     (if x \<in> set (collection s st)
      then (Inr (), s\<lparr>stores := (stores s)(st \<mapsto> remove1 x (collection s st))\<rparr>)
      else (Inl NotFoundError, s))"

section \<open>The query engine\<close>

text \<open>
  Modelled from the spec: \<open>QuerySet\<close> and \<open>EmptyQuerySet\<close> of \<open>reobject/query\<close>.
  A query is an immutable description (the collection it reads, the model, the chain of
  filters and exclusions); every terminal operation evaluates it against the collection
  as it is at the time of the call.
\<close>

type_synonym kwargs = "(string \<times> val) list"

datatype clause = Filter kwargs | Exclude kwargs

datatype queryset = QuerySet store_ref model "clause list" | EmptyQuerySet model

text \<open>Python's \<open>key.split('__')\<close>.\<close>

fun split_dunder :: "string \<Rightarrow> string list" where
  "split_dunder (a # b # cs) =
     (if a = CHR ''_'' \<and> b = CHR ''_'' then [] # split_dunder cs
      else (case split_dunder (b # cs) of p # ps \<Rightarrow> (a # p) # ps | [] \<Rightarrow> [[a]]))"
| "split_dunder [a] = [[a]]"
| "split_dunder [] = [[]]"

text \<open>
  Modelled from the spec: field lookup by name, including suffixed lookup keys such as
  \<open>field__pk\<close>, which follow the reference held by \<open>field\<close>.
\<close>

fun resolve :: "world \<Rightarrow> string list \<Rightarrow> val \<Rightarrow> val option" where
  "resolve s [] v = Some v"
| "resolve s (a # as) (VRef r) =
     (case getattr (objs s r) a of None \<Rightarrow> None | Some v \<Rightarrow> resolve s as v)"
| "resolve s (a # as) v = None"

definition lookup :: "world \<Rightarrow> ref \<Rightarrow> string \<Rightarrow> val option" where
  "lookup s r k = resolve s (split_dunder k) (VRef r)"

definition matches :: "world \<Rightarrow> ref \<Rightarrow> string \<times> val \<Rightarrow> bool" where
  "matches s r kv = (lookup s r (fst kv) = Some (snd kv))"

definition matches_all :: "world \<Rightarrow> kwargs \<Rightarrow> ref \<Rightarrow> bool" where
  "matches_all s kw r = list_all (matches s r) kw"

fun apply_clause :: "world \<Rightarrow> clause \<Rightarrow> ref list \<Rightarrow> ref list" where
  "apply_clause s (Filter kw) xs = filter (matches_all s kw) xs"
| "apply_clause s (Exclude kw) xs = filter (\<lambda>r. \<not> matches_all s kw r) xs"

fun evaluate :: "world \<Rightarrow> queryset \<Rightarrow> ref list" where
  "evaluate s (QuerySet st m cs) = fold (apply_clause s) cs (collection s st)"
| "evaluate s (EmptyQuerySet m) = []"

fun QuerySet_filter :: "queryset \<Rightarrow> kwargs \<Rightarrow> queryset" where
  "QuerySet_filter (QuerySet st m cs) kw = QuerySet st m (cs @ [Filter kw])"
| "QuerySet_filter (EmptyQuerySet m) kw = EmptyQuerySet m"


definition QuerySet_count :: "world \<Rightarrow> queryset \<Rightarrow> nat" where
  "QuerySet_count s q = length (evaluate s q)"

definition QuerySet_get :: "world \<Rightarrow> queryset \<Rightarrow> kwargs \<Rightarrow> error + ref" where
  "QuerySet_get s q kw =
     (case evaluate s (QuerySet_filter q kw) of
        [] \<Rightarrow> Inl DoesNotExistError
      | [x] \<Rightarrow> Inr x
      | x # y # ys \<Rightarrow> Inl MultipleObjectsError)"

text \<open>
  Modelled from the spec: ordering by a named field. The field holds a datetime (the
  docstrings of \<open>Manager.earliest\<close> and \<open>Manager.latest\<close>); reading it from an instance that
  has no such field fails. The sort is stable, so insertion order decides between equal
  keys.
\<close>

definition field_time :: "world \<Rightarrow> string \<Rightarrow> ref \<Rightarrow> error + nat" where
  "field_time s f r =
     (case getattr (objs s r) f of
        Some (VTime t) \<Rightarrow> Inr t
      | _ \<Rightarrow> Inl (AttributeError f))"

fun field_keys :: "world \<Rightarrow> string \<Rightarrow> ref list \<Rightarrow> error + (nat \<times> ref) list" where
  "field_keys s f [] = Inr []"
| "field_keys s f (r # rs) =
     (case field_time s f r of
        Inl e \<Rightarrow> Inl e
      | Inr t \<Rightarrow> (case field_keys s f rs of Inl e \<Rightarrow> Inl e | Inr ks \<Rightarrow> Inr ((t, r) # ks)))"

definition order_by :: "world \<Rightarrow> string \<Rightarrow> ref list \<Rightarrow> error + ref list" where
  "order_by s f rs =
     (case field_keys s f rs of
        Inl e \<Rightarrow> Inl e
      | Inr ks \<Rightarrow> Inr (map snd (sort_key fst ks)))"

text \<open>The optional argument is \<open>None\<close> when the caller passes no field name.\<close>

definition default_field :: "string option \<Rightarrow> string" where
  "default_field fo = (case fo of None \<Rightarrow> ''created'' | Some f \<Rightarrow> f)"

definition QuerySet_earliest :: "world \<Rightarrow> queryset \<Rightarrow> string option \<Rightarrow> error + ref option" where
  "QuerySet_earliest s q fo =
     (case order_by s (default_field fo) (evaluate s q) of
        Inl e \<Rightarrow> Inl e
      | Inr [] \<Rightarrow> Inr None
      | Inr (x # xs) \<Rightarrow> Inr (Some x))"

definition QuerySet_latest :: "world \<Rightarrow> queryset \<Rightarrow> string option \<Rightarrow> error + ref option" where
  "QuerySet_latest s q fo =
     (case order_by s (default_field fo) (evaluate s q) of
        Inl e \<Rightarrow> Inl e
      | Inr [] \<Rightarrow> Inr None
      | Inr (x # xs) \<Rightarrow> Inr (Some (last (x # xs))))"

text \<open>
  Modelled from the spec: random selection over the current matches, with the draw of
  the randomness source as an explicit argument.
\<close>

definition QuerySet_random :: "world \<Rightarrow> queryset \<Rightarrow> nat \<Rightarrow> ref option" where
  "QuerySet_random s q draw =
     (case evaluate s q of
        [] \<Rightarrow> None
      | x # xs \<Rightarrow> Some ((x # xs) ! (draw mod length (x # xs))))"

section \<open>The manager\<close>

definition Manager_store :: "manager \<Rightarrow> world \<Rightarrow> store_ref \<times> world" where
  "Manager_store self s = ModelStoreMapping_get (name (manager_model self)) s"

definition Manager_get_queryset :: "manager \<Rightarrow> world \<Rightarrow> queryset \<times> world" where
  "Manager_get_queryset self s =
     (case Manager_store self s of (st, s') \<Rightarrow> (QuerySet st (manager_model self) [], s'))"

definition RelatedManager_get_queryset :: "manager \<Rightarrow> ref \<Rightarrow> world \<Rightarrow> queryset \<times> world" where
  "RelatedManager_get_queryset mself instance s =
     (case Manager_get_queryset mself s of
        (q, s') \<Rightarrow>
          (QuerySet_filter q
             [(str_lower s' (cls (objs s' instance)) @ ''__pk'', VInt (pk (objs s' instance)))], s'))"

text \<open>The call \<open>self.get_queryset()\<close>, resolved by the class of \<open>self\<close>.\<close>

fun get_queryset :: "manager \<Rightarrow> world \<Rightarrow> queryset \<times> world" where
  "get_queryset (Manager m) s = Manager_get_queryset (Manager m) s"
| "get_queryset (RelatedManager m i) s = RelatedManager_get_queryset (RelatedManager m i) i s"

text \<open>\<open>_add\<close>; \<open>t\<close> is the value of the one call of \<open>datetime.utcnow()\<close>.\<close>

definition Manager__add :: "manager \<Rightarrow> ref \<Rightarrow> nat \<Rightarrow> world \<Rightarrow> ref \<times> world" where
  "Manager__add self instance t s =
     (let s1 = setattr instance ''created'' (VTime t) s;
          s2 = setattr instance ''updated'' (VTime t) s1
      in case Manager_store self s2 of (st, s3) \<Rightarrow> (instance, store_append st instance s3))"

definition Manager__clear :: "manager \<Rightarrow> world \<Rightarrow> world" where
  "Manager__clear self s = (case Manager_store self s of (st, s') \<Rightarrow> store_clear st s')"

definition Manager__delete :: "manager \<Rightarrow> ref \<Rightarrow> world \<Rightarrow> (error + unit) \<times> world" where
  "Manager__delete self obj s = (case Manager_store self s of (st, s') \<Rightarrow> store_remove st obj s')"

definition Manager_all :: "manager \<Rightarrow> world \<Rightarrow> queryset \<times> world" where
  "Manager_all self s = get_queryset self s"

definition Manager_count :: "manager \<Rightarrow> world \<Rightarrow> nat \<times> world" where
  "Manager_count self s = (case Manager_all self s of (q, s') \<Rightarrow> (QuerySet_count s' q, s'))"

definition Manager_earliest :: "manager \<Rightarrow> string \<Rightarrow> world \<Rightarrow> (error + ref option) \<times> world" where
  "Manager_earliest self field_name s =
     (case Manager_all self s of (q, s') \<Rightarrow> (QuerySet_earliest s' q (Some field_name), s'))"



definition Manager_first :: "manager \<Rightarrow> world \<Rightarrow> (error + ref option) \<times> world" where
  "Manager_first self s =
     (case Manager_all self s of (q, s') \<Rightarrow> (QuerySet_earliest s' q None, s'))"

definition Manager_get :: "manager \<Rightarrow> kwargs \<Rightarrow> world \<Rightarrow> (error + ref) \<times> world" where
  "Manager_get self kw s = (case Manager_all self s of (q, s') \<Rightarrow> (QuerySet_get s' q kw, s'))"

definition Manager_last :: "manager \<Rightarrow> world \<Rightarrow> (error + ref option) \<times> world" where
  "Manager_last self s =
     (case Manager_all self s of (q, s') \<Rightarrow> (QuerySet_latest s' q None, s'))"

definition Manager_latest :: "manager \<Rightarrow> string \<Rightarrow> world \<Rightarrow> (error + ref option) \<times> world" where
  "Manager_latest self field_name s =
     (case Manager_all self s of (q, s') \<Rightarrow> (QuerySet_latest s' q (Some field_name), s'))"

definition Manager_none :: "manager \<Rightarrow> queryset" where
  "Manager_none self = EmptyQuerySet (manager_model self)"

definition Manager_random :: "manager \<Rightarrow> nat \<Rightarrow> world \<Rightarrow> ref option \<times> world" where
  "Manager_random self draw s =
     (case Manager_all self s of (q, s') \<Rightarrow> (QuerySet_random s' q draw, s'))"

text \<open>\<open>__contains__\<close>: \<open>bool(self.get(name=item))\<close>.\<close>

definition Manager_contains :: "manager \<Rightarrow> val \<Rightarrow> world \<Rightarrow> (error + bool) \<times> world" where
  "Manager_contains self item s =
     (case Manager_get self [(''name'', item)] s of
        (Inl e, s') \<Rightarrow> (Inl e, s')
      | (Inr x, s') \<Rightarrow> (Inr (truthy (objs s' x)), s'))"

text \<open>\<open>__repr__\<close>; \<open>type(self).__name__\<close> is the name of the class of \<open>self\<close>.\<close>

fun Manager_repr :: "manager \<Rightarrow> string" where
  "Manager_repr (Manager m) = ''<Manager: '' @ name m @ ''>''"
| "Manager_repr (RelatedManager m i) = ''<RelatedManager: '' @ name m @ ''>''"






section \<open>The access descriptors\<close>

definition alloc_manager :: "manager \<Rightarrow> world \<Rightarrow> ref \<times> world" where
  "alloc_manager m s = (length (managers s), s\<lparr>managers := managers s @ [m]\<rparr>)"

record ManagerDescriptor =
  manager :: "ref option"

definition ManagerDescriptor_init :: ManagerDescriptor where
  "ManagerDescriptor_init = \<lparr>manager = None\<rparr>"

text \<open>
  \<open>__get__(self, instance, owner)\<close>; \<open>instance\<close> is \<open>None\<close> on access through the class.
  A manager object is true (the class defines neither \<open>__bool__\<close> nor \<open>__len__\<close>), so
  \<open>not self.manager\<close> holds exactly when the field is \<open>None\<close>.
\<close>

definition ManagerDescriptor_get ::
  "ManagerDescriptor \<Rightarrow> ref option \<Rightarrow> model \<Rightarrow> world \<Rightarrow> (error + ref) \<times> ManagerDescriptor \<times> world" where
  "ManagerDescriptor_get self instance owner s =
     (if instance \<noteq> None
      then (Inl (AttributeError (''Manager isn't accessible via '' @ name owner @ '' instances'')),
            self, s)
      else (case manager self of
              None \<Rightarrow>
                (case alloc_manager (Manager owner) s of
                   (a, s') \<Rightarrow> (Inr a, self\<lparr>manager := Some a\<rparr>, s'))
            | Some a \<Rightarrow> (Inr a, self, s)))"

record RelatedManagerDescriptor =
  rmd_model :: model

definition RelatedManagerDescriptor_init :: "model \<Rightarrow> RelatedManagerDescriptor" where
  "RelatedManagerDescriptor_init m = \<lparr>rmd_model = m\<rparr>"

definition RelatedManagerDescriptor_get ::
  "RelatedManagerDescriptor \<Rightarrow> ref option \<Rightarrow> model \<Rightarrow> world
     \<Rightarrow> (error + ref) \<times> RelatedManagerDescriptor \<times> world" where
  "RelatedManagerDescriptor_get self instance owner s =
     (case instance of
        None \<Rightarrow>
          (Inl (AttributeError (''RelatedManager isn't accessible via '' @ name owner @ '' class'')),
           self, s)
      | Some i \<Rightarrow>
          (case alloc_manager (RelatedManager (rmd_model self) i) s of
             (a, s') \<Rightarrow> (Inr a, self, s')))"

text \<open>
  A program that reads the attribute \<open>n\<close> times in a row: through the class for the
  manager, through the instance \<open>i\<close> for the related manager. It collects what each
  access returns.
\<close>

fun class_accesses ::
  "nat \<Rightarrow> ManagerDescriptor \<Rightarrow> model \<Rightarrow> world \<Rightarrow> (error + ref) list \<times> ManagerDescriptor \<times> world" where
  "class_accesses 0 d owner s = ([], d, s)"
| "class_accesses (Suc n) d owner s =
     (case ManagerDescriptor_get d None owner s of
        (r, d', s') \<Rightarrow>
          (case class_accesses n d' owner s' of (rs, d'', s'') \<Rightarrow> (r # rs, d'', s'')))"

fun instance_accesses ::
  "nat \<Rightarrow> RelatedManagerDescriptor \<Rightarrow> ref \<Rightarrow> model \<Rightarrow> world
     \<Rightarrow> (error + ref) list \<times> RelatedManagerDescriptor \<times> world" where
  "instance_accesses 0 d i owner s = ([], d, s)"
| "instance_accesses (Suc n) d i owner s =
     (case RelatedManagerDescriptor_get d (Some i) owner s of
        (r, d', s') \<Rightarrow>
          (case instance_accesses n d' i owner s' of (rs, d'', s'') \<Rightarrow> (r # rs, d'', s'')))"

section \<open>A concrete state\<close>

text \<open>
  \<open>lower\<close> is \<open>str.lower\<close> on strings of code points below 256: the capital letters
  of ASCII and of Latin-1 move up by 32 and every other character stays.
\<close>

definition lower_char :: "char \<Rightarrow> char" where
  "lower_char c =
     (let n = (of_char c :: nat)
      in if (65 \<le> n \<and> n \<le> 90) \<or> (192 \<le> n \<and> n \<le> 214) \<or> (216 \<le> n \<and> n \<le> 222)
         then char_of (n + 32) else c)"

definition lower :: "string \<Rightarrow> string" where
  "lower xs = map lower_char xs"

text \<open>
  Two authors and three books; every book refers to its author. The references 0 and 1
  are the authors, 2 to 4 the books, and every other reference is a bare object.
\<close>

definition Book :: model where
  "Book = \<lparr>model_id = 0, name = ''Book''\<rparr>"

definition Author :: model where
  "Author = \<lparr>model_id = 1, name = ''Author''\<rparr>"

definition empty_world :: world where
  "empty_world = \<lparr>objs = (\<lambda>r. \<lparr>cls = ''object'', pk = int r, truthy = True, attrs = Map.empty\<rparr>),
                   stores = Map.empty, managers = [], str_lower = lower\<rparr>"

definition library :: world where
  "library =
     \<lparr>objs = (\<lambda>r. \<lparr>cls = ''object'', pk = int r, truthy = True, attrs = Map.empty\<rparr>)
        (0 := \<lparr>cls = ''Author'', pk = 1, truthy = True, attrs = [''name'' \<mapsto> VStr ''ann'']\<rparr>,
         1 := \<lparr>cls = ''Author'', pk = 2, truthy = True, attrs = [''name'' \<mapsto> VStr ''bob'']\<rparr>,
         2 := \<lparr>cls = ''Book'', pk = 10, truthy = True,
                attrs = [''name'' \<mapsto> VStr ''a'', ''kind'' \<mapsto> VStr ''novel'',
                         ''author'' \<mapsto> VRef 0, ''created'' \<mapsto> VTime 1, ''updated'' \<mapsto> VTime 1]\<rparr>,
         3 := \<lparr>cls = ''Book'', pk = 11, truthy = True,
                attrs = [''name'' \<mapsto> VStr ''b'', ''kind'' \<mapsto> VStr ''novel'',
                         ''author'' \<mapsto> VRef 1, ''created'' \<mapsto> VTime 2, ''updated'' \<mapsto> VTime 2]\<rparr>,
         4 := \<lparr>cls = ''Book'', pk = 12, truthy = True,
                attrs = [''name'' \<mapsto> VStr ''c'', ''kind'' \<mapsto> VStr ''essay'',
                         ''author'' \<mapsto> VRef 0, ''created'' \<mapsto> VTime 3, ''updated'' \<mapsto> VTime 3]\<rparr>),
      stores = [''Author'' \<mapsto> [0, 1], ''Book'' \<mapsto> [2, 3, 4]],
      managers = [], str_lower = lower\<rparr>"

lemmas ev = matches_all_def matches_def lookup_def getattr_def collection_def library_def
  Book_def Author_def

section \<open>The store mapping and the query engine\<close>

lemma store_get_fst: "fst (ModelStoreMapping_get n s) = n"
  by (simp add: ModelStoreMapping_get_def split: option.split)

lemma store_get_objs: "objs (snd (ModelStoreMapping_get n s)) = objs s"
  by (simp add: ModelStoreMapping_get_def split: option.split)


lemma store_get_collection: "collection (snd (ModelStoreMapping_get n s)) k = collection s k"
  by (simp add: ModelStoreMapping_get_def collection_def split: option.split)

lemma resolve_objs: "objs s' = objs s \<Longrightarrow> resolve s' p v = resolve s p v"
  by (induction s p v rule: resolve.induct) (simp_all split: option.split)

lemma matches_objs: "objs s' = objs s \<Longrightarrow> matches s' r = matches s r"
  by (rule ext) (simp add: matches_def lookup_def resolve_objs [of s' s])

lemma matches_all_objs: "objs s' = objs s \<Longrightarrow> matches_all s' kw = matches_all s kw"
  by (rule ext) (simp add: matches_all_def matches_objs [of s' s])


lemma collection_append:
  "collection (store_append st x s) k = (if k = st then collection s st @ [x] else collection s k)"
  by (simp add: store_append_def collection_def)

lemma collection_clear: "collection (store_clear st s) k = (if k = st then [] else collection s k)"
  by (simp add: store_clear_def collection_def)

lemma collection_setattr: "collection (setattr r n v s) k = collection s k"
  by (simp add: setattr_def collection_def)

lemma objs_append: "objs (store_append st x s) = objs s"
  by (simp add: store_append_def)









section \<open>The manager's operations, unfolded\<close>

lemma Manager_store_eq:
  "Manager_store self s =
     (name (manager_model self), snd (ModelStoreMapping_get (name (manager_model self)) s))"
  by (simp add: Manager_store_def prod_eq_iff store_get_fst)

lemma Manager_get_queryset_eq:
  "Manager_get_queryset self s =
     (QuerySet (name (manager_model self)) (manager_model self) [],
      snd (ModelStoreMapping_get (name (manager_model self)) s))"
  by (simp add: Manager_get_queryset_def Manager_store_eq)

lemma Manager_all_plain:
  "Manager_all (Manager m) s = (QuerySet (name m) m [], snd (ModelStoreMapping_get (name m) s))"
  by (simp add: Manager_all_def Manager_get_queryset_eq)

lemma Manager_count_plain: "fst (Manager_count (Manager a) s) = length (collection s (name a))"
  by (simp add: Manager_count_def Manager_all_plain QuerySet_count_def store_get_collection)

lemma Manager_get_plain:
  "fst (Manager_get (Manager m) kw s) =
     (case filter (matches_all s kw) (collection s (name m)) of
        [] \<Rightarrow> Inl DoesNotExistError
      | [x] \<Rightarrow> Inr x
      | x # y # ys \<Rightarrow> Inl MultipleObjectsError)"
  by (simp add: Manager_get_def Manager_all_plain QuerySet_get_def store_get_collection
      matches_all_objs [of "snd (ModelStoreMapping_get (name m) s)" s] store_get_objs)

lemma Manager__add_eq:
  "Manager__add self x t s =
     (x, store_append (name (manager_model self)) x
           (snd (ModelStoreMapping_get (name (manager_model self))
                  (setattr x ''updated'' (VTime t) (setattr x ''created'' (VTime t) s)))))"
  by (simp add: Manager__add_def Manager_store_eq Let_def)

lemma Manager__clear_eq:
  "Manager__clear self s =
     store_clear (name (manager_model self)) (snd (ModelStoreMapping_get (name (manager_model self)) s))"
  by (simp add: Manager__clear_def Manager_store_eq)

lemma Manager__delete_eq:
  "Manager__delete self x s =
     store_remove (name (manager_model self)) x (snd (ModelStoreMapping_get (name (manager_model self)) s))"
  by (simp add: Manager__delete_def Manager_store_eq)

lemma Manager__delete_collection:
  "(case Manager__delete (Manager a) x s of
      (r, s') \<Rightarrow>
        if x \<in> set (collection s (name a))
        then r = Inr () \<and> collection s' (name a) = remove1 x (collection s (name a))
        else r = Inl NotFoundError \<and> collection s' (name a) = collection s (name a))"
  by (simp add: Manager__delete_eq store_remove_def store_get_collection)
     (simp add: collection_def)

lemma getattr_after_stamp:
  "getattr (objs (setattr x ''updated'' (VTime t) (setattr x ''created'' (VTime t) s)) x) ''created''
     = Some (VTime t)"
  "getattr (objs (setattr x ''updated'' (VTime t) (setattr x ''created'' (VTime t) s)) x) ''updated''
     = Some (VTime t)"
  by (simp_all add: setattr_def getattr_def)

lemma evaluate_get_queryset_subset:
  "set (evaluate (snd (get_queryset self s)) (fst (get_queryset self s)))
     \<subseteq> set (collection s (name (manager_model self)))"
  by (cases self)
     (auto simp: Manager_get_queryset_eq RelatedManager_get_queryset_def store_get_collection)

lemma evaluate_empty:
  assumes "collection s (name (manager_model self)) = []"
  shows "evaluate (snd (Manager_all self s)) (fst (Manager_all self s)) = []"
  using evaluate_get_queryset_subset [of self s] assms by (simp add: Manager_all_def)




lemma Manager_contains_absent:
  assumes "filter (matches_all s [(''name'', item)]) (collection s (name m)) = []"
  shows "fst (Manager_contains (Manager m) item s) = Inl DoesNotExistError"
proof -
  have "fst (Manager_get (Manager m) [(''name'', item)] s) = Inl DoesNotExistError"
    using assms by (simp add: Manager_get_plain)
  then show ?thesis
    by (cases "Manager_get (Manager m) [(''name'', item)] s") (simp add: Manager_contains_def)
qed

section \<open>Access through the descriptors\<close>

lemma class_accesses_cached:
  "manager d = Some a \<Longrightarrow> class_accesses n d owner s = (replicate n (Inr a), d, s)"
  by (induction n) (simp_all add: ManagerDescriptor_get_def)

lemma class_accesses_init:
  "class_accesses (Suc n) ManagerDescriptor_init owner s =
     (replicate (Suc n) (Inr (length (managers s))),
      \<lparr>manager = Some (length (managers s))\<rparr>,
      s\<lparr>managers := managers s @ [Manager owner]\<rparr>)"
  by (simp add: ManagerDescriptor_get_def ManagerDescriptor_init_def alloc_manager_def
      class_accesses_cached)

lemma instance_accesses_fresh:
  "instance_accesses n d i owner s =
     (map Inr [length (managers s) ..< length (managers s) + n], d,
      s\<lparr>managers := managers s @ replicate n (RelatedManager (rmd_model d) i)\<rparr>)"
proof (induction n arbitrary: s)
  case 0
  show ?case by simp
next
  case (Suc n)
  show ?case
    by (simp add: RelatedManagerDescriptor_get_def alloc_manager_def Suc upt_conv_Cons
        replicate_app_Cons_same del: upt_Suc)
qed

lemma instance_accesses_distinct:
  "distinct (fst (instance_accesses n d i owner s))"
  by (simp add: instance_accesses_fresh distinct_map inj_on_def)

text \<open>
  C1. Reaching the manager through an instance fails in \<open>ManagerDescriptor.__get__\<close>, and
  reaching the related manager through the class fails in
  \<open>RelatedManagerDescriptor.__get__\<close>. The error is the result of the access itself:
  nothing is constructed and neither the descriptor nor the state changes. The error the
  spec calls \<open>AccessError\<close> is Python's \<open>AttributeError\<close> in the code. The other direction
  of each access succeeds.
\<close>

theorem descriptor_access_error:
  "ManagerDescriptor_get d (Some i) owner s =
     (Inl (AttributeError (''Manager isn't accessible via '' @ name owner @ '' instances'')), d, s)
   \<and> RelatedManagerDescriptor_get rd None owner s =
     (Inl (AttributeError (''RelatedManager isn't accessible via '' @ name owner @ '' class'')), rd, s)
   \<and> (\<exists>a d' s'. ManagerDescriptor_get d None owner s = (Inr a, d', s'))
   \<and> (\<exists>a rd' s'. RelatedManagerDescriptor_get rd (Some i) owner s = (Inr a, rd', s'))"
  by (simp add: ManagerDescriptor_get_def RelatedManagerDescriptor_get_def alloc_manager_def
      split: option.split)

theorem descriptor_access_error_witness:
  "fst (ManagerDescriptor_get ManagerDescriptor_init (Some 2) Book library) =
     Inl (AttributeError ''Manager isn't accessible via Book instances'')
   \<and> fst (RelatedManagerDescriptor_get (RelatedManagerDescriptor_init Book) None Author library) =
     Inl (AttributeError ''RelatedManager isn't accessible via Author class'')"
  using descriptor_access_error [of ManagerDescriptor_init 2 Book library
      "RelatedManagerDescriptor_init Book"]
    descriptor_access_error [of ManagerDescriptor_init 2 Author library
      "RelatedManagerDescriptor_init Book"]
  by (simp add: Book_def Author_def)

text \<open>
  C8. A new descriptor holds no manager. The first access through the class allocates
  one \<open>Manager\<close> object bound to the owner and stores its reference in the descriptor;
  from then on every access through the class, in any later state, returns that same
  reference, allocates nothing and leaves the descriptor as it is. Any number of accesses
  in a row return one and the same reference and leave exactly one new manager behind.
\<close>

theorem manager_descriptor_caches:
  "manager ManagerDescriptor_init = None
   \<and> (case ManagerDescriptor_get ManagerDescriptor_init None owner s of
        (r, d1, s1) \<Rightarrow>
          r = Inr (length (managers s))
          \<and> managers s1 = managers s @ [Manager owner]
          \<and> managers s1 ! length (managers s) = Manager owner
          \<and> (\<forall>owner' s2. ManagerDescriptor_get d1 None owner' s2 = (Inr (length (managers s)), d1, s2)))
   \<and> class_accesses (Suc n) ManagerDescriptor_init owner s =
       (replicate (Suc n) (Inr (length (managers s))),
        \<lparr>manager = Some (length (managers s))\<rparr>,
        s\<lparr>managers := managers s @ [Manager owner]\<rparr>)"
proof -
  have once: "manager ManagerDescriptor_init = None
   \<and> (case ManagerDescriptor_get ManagerDescriptor_init None owner s of
        (r, d1, s1) \<Rightarrow>
          r = Inr (length (managers s))
          \<and> managers s1 = managers s @ [Manager owner]
          \<and> managers s1 ! length (managers s) = Manager owner
          \<and> (\<forall>owner' s2. ManagerDescriptor_get d1 None owner' s2 = (Inr (length (managers s)), d1, s2)))"
    by (simp add: ManagerDescriptor_get_def ManagerDescriptor_init_def alloc_manager_def)
  show ?thesis using once class_accesses_init [of n owner s] by simp
qed

text \<open>
  C9. Every access through an instance allocates a new \<open>RelatedManager\<close> object that
  closes over that instance, and the descriptor keeps no reference to it: two successive
  accesses from the same instance return two different objects, and any number of
  accesses in a row return pairwise different ones.
\<close>

theorem related_manager_descriptor_fresh:
  "(case RelatedManagerDescriptor_get d (Some i) owner s of
      (r1, d1, s1) \<Rightarrow>
        r1 = Inr (length (managers s)) \<and> d1 = d
        \<and> managers s1 = managers s @ [RelatedManager (rmd_model d) i]
        \<and> (case RelatedManagerDescriptor_get d1 (Some i) owner s1 of
             (r2, d2, s2) \<Rightarrow>
               r2 = Inr (Suc (length (managers s))) \<and> r2 \<noteq> r1 \<and> d2 = d
               \<and> managers s2 ! length (managers s) = RelatedManager (rmd_model d) i
               \<and> managers s2 ! Suc (length (managers s)) = RelatedManager (rmd_model d) i))
   \<and> instance_accesses n d i owner s =
       (map Inr [length (managers s) ..< length (managers s) + n], d,
        s\<lparr>managers := managers s @ replicate n (RelatedManager (rmd_model d) i)\<rparr>)
   \<and> distinct (fst (instance_accesses n d i owner s))"
proof -
  have twice: "(case RelatedManagerDescriptor_get d (Some i) owner s of
      (r1, d1, s1) \<Rightarrow>
        r1 = Inr (length (managers s)) \<and> d1 = d
        \<and> managers s1 = managers s @ [RelatedManager (rmd_model d) i]
        \<and> (case RelatedManagerDescriptor_get d1 (Some i) owner s1 of
             (r2, d2, s2) \<Rightarrow>
               r2 = Inr (Suc (length (managers s))) \<and> r2 \<noteq> r1 \<and> d2 = d
               \<and> managers s2 ! length (managers s) = RelatedManager (rmd_model d) i
               \<and> managers s2 ! Suc (length (managers s)) = RelatedManager (rmd_model d) i))"
    by (simp add: RelatedManagerDescriptor_get_def alloc_manager_def nth_append)
  show ?thesis
    using twice instance_accesses_fresh [of n d i owner s] instance_accesses_distinct [of n d i owner s]
    by simp
qed

section \<open>Adding an instance\<close>

text \<open>
  C3. \<open>_add(x)\<close> returns the reference \<open>x\<close> it was given; afterwards \<open>x.created\<close> and
  \<open>x.updated\<close> both hold the one time read from the clock, so they are equal; the
  collection of the model is the old one with \<open>x\<close> appended, and a query over all
  instances of the model sees it.
\<close>

theorem add_stamps_appends_returns:
  "(case Manager__add self x t s of
      (r, s') \<Rightarrow>
        r = x
        \<and> getattr (objs s' x) ''created'' = Some (VTime t)
        \<and> getattr (objs s' x) ''updated'' = Some (VTime t)
        \<and> getattr (objs s' x) ''created'' = getattr (objs s' x) ''updated''
        \<and> collection s' (name (manager_model self)) = collection s (name (manager_model self)) @ [x]
        \<and> (case Manager_all (Manager (manager_model self)) s' of
             (q, s'') \<Rightarrow> evaluate s'' q = collection s (name (manager_model self)) @ [x]))"
  by (simp add: Manager__add_eq objs_append store_get_objs getattr_after_stamp collection_append
      store_get_collection collection_setattr Manager_all_plain)

theorem add_stamps_appends_returns_witness:
  "fst (Manager__add (Manager Book) 5 9 library) = 5
   \<and> collection (snd (Manager__add (Manager Book) 5 9 library)) ''Book'' = [2, 3, 4, 5]
   \<and> getattr (objs (snd (Manager__add (Manager Book) 5 9 library)) 5) ''created'' = Some (VTime 9)
   \<and> getattr (objs (snd (Manager__add (Manager Book) 5 9 library)) 5) ''updated'' = Some (VTime 9)"
proof -
  have c: "collection library ''Book'' = [2, 3, 4]"
    by (simp add: collection_def library_def)
  show ?thesis
    using add_stamps_appends_returns [where self = "Manager Book" and x = 5 and t = 9 and s = library] c
    by (simp add: split_beta Book_def)
qed

section \<open>Reading through the manager\<close>

text \<open>
  C4. \<open>first()\<close> calls \<open>earliest\<close> of the query with no field name and
  \<open>earliest('created')\<close> calls it with \<open>created\<close>, which is the query's default; the same
  holds for \<open>last()\<close> and \<open>latest('created')\<close>. The two calls agree in every state, in the
  value they return and in the state they leave.
\<close>

theorem first_last_are_earliest_latest_created:
  "Manager_first self s = Manager_earliest self ''created'' s
   \<and> Manager_last self s = Manager_latest self ''created'' s"
  by (simp add: Manager_first_def Manager_earliest_def Manager_last_def Manager_latest_def
      QuerySet_earliest_def QuerySet_latest_def default_field_def)

theorem first_last_are_earliest_latest_created_witness:
  "fst (Manager_first (Manager Book) library) = Inr (Some 2)
   \<and> fst (Manager_earliest (Manager Book) ''created'' library) = Inr (Some 2)
   \<and> fst (Manager_last (Manager Book) library) = Inr (Some 4)
   \<and> fst (Manager_latest (Manager Book) ''created'' library) = Inr (Some 4)"
proof -
  have e: "fst (Manager_earliest (Manager Book) ''created'' library) = Inr (Some 2)"
    by (simp add: Manager_earliest_def Manager_all_plain QuerySet_earliest_def default_field_def
        order_by_def field_time_def ModelStoreMapping_get_def ev)
  have l: "fst (Manager_latest (Manager Book) ''created'' library) = Inr (Some 4)"
    by (simp add: Manager_latest_def Manager_all_plain QuerySet_latest_def default_field_def
        order_by_def field_time_def ModelStoreMapping_get_def ev)
  show ?thesis
    using first_last_are_earliest_latest_created [of "Manager Book" library] e l by simp
qed

text \<open>
  C5. Let \<open>ms\<close> be the stored instances of the model that match every predicate, in
  insertion order. \<open>get\<close> fails with \<open>DoesNotExistError\<close> when \<open>ms\<close> is empty, fails with
  \<open>MultipleObjectsError\<close> when \<open>ms\<close> has more than one element, and returns the instance
  when \<open>ms\<close> has exactly one.
\<close>

theorem get_zero_one_many:
  assumes "ms = filter (matches_all s kw) (collection s (name m))"
  shows "(ms = [] \<longrightarrow> fst (Manager_get (Manager m) kw s) = Inl DoesNotExistError)
       \<and> (1 < length ms \<longrightarrow> fst (Manager_get (Manager m) kw s) = Inl MultipleObjectsError)
       \<and> (\<forall>x. ms = [x] \<longrightarrow> fst (Manager_get (Manager m) kw s) = Inr x)"
  using assms by (auto simp: Manager_get_plain split: list.splits)

theorem get_zero_one_many_witness:
  "fst (Manager_get (Manager Book) [(''name'', VStr ''zzz'')] library) = Inl DoesNotExistError
   \<and> fst (Manager_get (Manager Book) [(''kind'', VStr ''novel'')] library) = Inl MultipleObjectsError
   \<and> fst (Manager_get (Manager Book) [(''name'', VStr ''a'')] library) = Inr 2"
proof -
  have a: "filter (matches_all library [(''name'', VStr ''zzz'')]) (collection library (name Book)) = []"
    by (simp add: ev)
  have b: "filter (matches_all library [(''kind'', VStr ''novel'')]) (collection library (name Book)) = [2, 3]"
    by (simp add: ev)
  have c: "filter (matches_all library [(''name'', VStr ''a'')]) (collection library (name Book)) = [2]"
    by (simp add: ev)
  show ?thesis
    using get_zero_one_many [OF a [symmetric]] get_zero_one_many [OF b [symmetric]]
      get_zero_one_many [OF c [symmetric]]
    by simp
qed

text \<open>
  C6. When the collection of the manager's model is empty, \<open>earliest\<close> and \<open>latest\<close> (with
  any field name), \<open>random\<close> (with any draw), \<open>first\<close> and \<open>last\<close> return \<open>None\<close>; none of
  them returns an error. This holds for a related manager too.
\<close>

theorem empty_collection_gives_None:
  assumes "collection s (name (manager_model self)) = []"
  shows "fst (Manager_earliest self f s) = Inr None
       \<and> fst (Manager_latest self f s) = Inr None
       \<and> fst (Manager_random self draw s) = None
       \<and> fst (Manager_first self s) = Inr None
       \<and> fst (Manager_last self s) = Inr None"
  using evaluate_empty [OF assms]
  by (simp add: Manager_earliest_def Manager_latest_def Manager_random_def Manager_first_def
      Manager_last_def QuerySet_earliest_def QuerySet_latest_def QuerySet_random_def order_by_def
      split_beta)

theorem empty_collection_gives_None_witness:
  "collection empty_world ''Book'' = []
   \<and> fst (Manager_earliest (Manager Book) ''created'' empty_world) = Inr None
   \<and> fst (Manager_latest (Manager Book) ''created'' empty_world) = Inr None
   \<and> fst (Manager_random (Manager Book) 7 empty_world) = None
   \<and> fst (Manager_first (Manager Book) empty_world) = Inr None
   \<and> fst (Manager_last (Manager Book) empty_world) = Inr None"
proof -
  have h: "collection empty_world (name (manager_model (Manager Book))) = []"
    by (simp add: collection_def empty_world_def)
  show ?thesis
    using h empty_collection_gives_None [OF h, of "''created''" 7] by (simp add: Book_def)
qed

text \<open>
  C7. The membership test is \<open>bool(self.get(name=item))\<close>. With three books stored and
  none of them named \<open>zzz\<close>, the test \<open>'zzz' in Book.objects\<close> does not return false: the
  \<open>DoesNotExistError\<close> of \<open>get\<close> leaves \<open>__contains__\<close> uncaught.
\<close>

theorem contains_absent_item_raises:
  "filter (matches_all library [(''name'', VStr ''zzz'')]) (collection library (name Book)) = []
   \<and> fst (Manager_contains (Manager Book) (VStr ''zzz'') library) = Inl DoesNotExistError"
  by (simp add: Manager_contains_def Manager_get_def Manager_all_plain QuerySet_get_def
      ModelStoreMapping_get_def ev)

section \<open>The related manager\<close>








section \<open>One collection for all managers of a model\<close>

lemma Manager_get_snd: "snd (Manager_get (Manager a) kw s) = snd (ModelStoreMapping_get (name a) s)"
  by (simp add: Manager_get_def Manager_all_plain)

lemma Manager_count_snd: "snd (Manager_count (Manager a) s) = snd (ModelStoreMapping_get (name a) s)"
  by (simp add: Manager_count_def Manager_all_plain)

text \<open>
  C10. A \<open>Manager\<close> object has the model as its only field, and \<open>store\<close> looks the
  collection up in the mapping by the model's name at every call. So two managers whose
  models have the same name resolve to the same collection and every operation gives the
  same result and the same state through either; \<open>all\<close>, \<open>count\<close> and \<open>get\<close> read the
  collection as it is in the current state; \<open>_add\<close>, \<open>_clear\<close> and \<open>_delete\<close> change that
  collection; and a change made through one manager is seen through the other. In
  particular \<open>get\<close> is decided by the instances of the current collection that match:
  none, one or several.
\<close>

theorem manager_acts_on_global_collection:
  assumes "name a = name b"
  shows "Manager_store (Manager a) s = Manager_store (Manager b) s
       \<and> (case Manager_all (Manager a) s of
            (q, s') \<Rightarrow> evaluate s' q = collection s (name a)
                        \<and> (\<forall>k. collection s' k = collection s k))
       \<and> fst (Manager_count (Manager a) s) = length (collection s (name a))
       \<and> Manager_count (Manager a) s = Manager_count (Manager b) s
       \<and> Manager_get (Manager a) kw s = Manager_get (Manager b) kw s
       \<and> collection (snd (Manager__add (Manager a) x t s)) (name a) = collection s (name a) @ [x]
       \<and> collection (Manager__clear (Manager a) s) (name a) = []
       \<and> (case Manager__delete (Manager a) x s of
            (r, s') \<Rightarrow>
              if x \<in> set (collection s (name a))
              then r = Inr () \<and> collection s' (name a) = remove1 x (collection s (name a))
              else r = Inl NotFoundError \<and> collection s' (name a) = collection s (name a))
       \<and> Manager__add (Manager a) x t s = Manager__add (Manager b) x t s
       \<and> Manager__clear (Manager a) s = Manager__clear (Manager b) s
       \<and> Manager__delete (Manager a) x s = Manager__delete (Manager b) x s
       \<and> fst (Manager_count (Manager b) (snd (Manager__add (Manager a) x t s))) =
           Suc (fst (Manager_count (Manager b) s))
       \<and> fst (Manager_count (Manager b) (Manager__clear (Manager a) s)) = 0
       \<and> fst (Manager_get (Manager a) kw s) =
           (case filter (matches_all s kw) (collection s (name a)) of
              [] \<Rightarrow> Inl DoesNotExistError
            | [y] \<Rightarrow> Inr y
            | y # z # zs \<Rightarrow> Inl MultipleObjectsError)
       \<and> (\<forall>k. collection (snd (Manager_get (Manager a) kw s)) k = collection s k)
       \<and> (\<forall>k. collection (snd (Manager_count (Manager a) s)) k = collection s k)
       \<and> fst (Manager_get (Manager b) kw (snd (Manager__add (Manager a) x t s))) =
           (case filter (matches_all (snd (Manager__add (Manager a) x t s)) kw)
                   (collection s (name a) @ [x]) of
              [] \<Rightarrow> Inl DoesNotExistError
            | [y] \<Rightarrow> Inr y
            | y # z # zs \<Rightarrow> Inl MultipleObjectsError)
       \<and> (case Manager_all (Manager b) (snd (Manager__add (Manager a) x t s)) of
            (q, s') \<Rightarrow> evaluate s' q = collection s (name a) @ [x])
       \<and> fst (Manager_get (Manager b) kw (Manager__clear (Manager a) s)) = Inl DoesNotExistError"
proof -
  have 1: "Manager_store (Manager a) s = Manager_store (Manager b) s"
    using assms by (simp add: Manager_store_def)
  have 2: "(case Manager_all (Manager a) s of
            (q, s') \<Rightarrow> evaluate s' q = collection s (name a)
                        \<and> (\<forall>k. collection s' k = collection s k))"
    by (simp add: Manager_all_plain store_get_collection)
  have 3: "fst (Manager_count (Manager a) s) = length (collection s (name a))"
    by (rule Manager_count_plain)
  have 4: "Manager_count (Manager a) s = Manager_count (Manager b) s"
    using assms
    by (simp add: Manager_count_def Manager_all_plain QuerySet_count_def store_get_collection)
  have 5: "Manager_get (Manager a) kw s = Manager_get (Manager b) kw s"
    using assms
    by (simp add: Manager_get_def Manager_all_plain QuerySet_get_def store_get_collection)
  have 6: "collection (snd (Manager__add (Manager a) x t s)) (name a) = collection s (name a) @ [x]"
    by (simp add: Manager__add_eq collection_append store_get_collection collection_setattr)
  have 7: "collection (Manager__clear (Manager a) s) (name a) = []"
    by (simp add: Manager__clear_eq collection_clear)
  note 8 = Manager__delete_collection [where a = a and x = x and s = s]
  have 9: "Manager__add (Manager a) x t s = Manager__add (Manager b) x t s"
    using assms by (simp add: Manager__add_eq)
  have 10: "Manager__clear (Manager a) s = Manager__clear (Manager b) s"
    using assms by (simp add: Manager__clear_eq)
  have 11: "Manager__delete (Manager a) x s = Manager__delete (Manager b) x s"
    using assms by (simp add: Manager__delete_eq)
  have 12: "fst (Manager_count (Manager b) (snd (Manager__add (Manager a) x t s))) =
           Suc (fst (Manager_count (Manager b) s))"
    using 6 assms by (simp add: Manager_count_plain)
  have 13: "fst (Manager_count (Manager b) (Manager__clear (Manager a) s)) = 0"
    using 7 assms by (simp add: Manager_count_plain)
  have 14: "fst (Manager_get (Manager a) kw s) =
           (case filter (matches_all s kw) (collection s (name a)) of
              [] \<Rightarrow> Inl DoesNotExistError
            | [y] \<Rightarrow> Inr y
            | y # z # zs \<Rightarrow> Inl MultipleObjectsError)"
    by (rule Manager_get_plain)
  have 15: "\<forall>k. collection (snd (Manager_get (Manager a) kw s)) k = collection s k"
    by (simp add: Manager_get_snd store_get_collection)
  have 16: "\<forall>k. collection (snd (Manager_count (Manager a) s)) k = collection s k"
    by (simp add: Manager_count_snd store_get_collection)
  have 17: "fst (Manager_get (Manager b) kw (snd (Manager__add (Manager a) x t s))) =
           (case filter (matches_all (snd (Manager__add (Manager a) x t s)) kw)
                   (collection s (name a) @ [x]) of
              [] \<Rightarrow> Inl DoesNotExistError
            | [y] \<Rightarrow> Inr y
            | y # z # zs \<Rightarrow> Inl MultipleObjectsError)"
    using 6 assms Manager_get_plain [of b kw "snd (Manager__add (Manager a) x t s)"] by simp
  have 18: "(case Manager_all (Manager b) (snd (Manager__add (Manager a) x t s)) of
            (q, s') \<Rightarrow> evaluate s' q = collection s (name a) @ [x])"
    using 6 assms by (simp add: Manager_all_plain store_get_collection)
  have 19: "fst (Manager_get (Manager b) kw (Manager__clear (Manager a) s)) = Inl DoesNotExistError"
    using 7 assms Manager_get_plain [of b kw "Manager__clear (Manager a) s"] by simp
  show ?thesis using 1 2 3 4 5 6 7 8 9 10 11 12 13 14 15 16 17 18 19 by blast
qed

theorem manager_acts_on_global_collection_witness:
  "name Book = name Book
   \<and> collection (snd (Manager__add (Manager Book) 5 9 library)) ''Book'' = [2, 3, 4, 5]
   \<and> fst (Manager_count (Manager Book) library) = 3
   \<and> fst (Manager_count (Manager Book) (snd (Manager__add (Manager Book) 5 9 library))) = 4
   \<and> fst (Manager_count (Manager Book) (Manager__clear (Manager Book) library)) = 0
   \<and> fst (Manager_get (Manager Book) [(''name'', VStr ''c'')] library) = Inr 4
   \<and> fst (Manager_get (Manager Book) [(''name'', VStr ''c'')] (Manager__clear (Manager Book) library)) =
       Inl DoesNotExistError"
proof -
  have h: "name Book = name Book" by simp
  have c: "collection library (name Book) = [2, 3, 4]"
    by (simp add: collection_def library_def Book_def)
  have f: "filter (matches_all library [(''name'', VStr ''c'')]) [2, 3, 4] = [4]"
    by (simp add: ev)
  note T = manager_acts_on_global_collection [OF h, where s = library and x = 5 and t = 9
      and kw = "[(''name'', VStr ''c'')]"]
  have g: "fst (Manager_get (Manager Book) [(''name'', VStr ''c'')] library) = Inr 4"
    using T c f by simp
  show ?thesis
    using T c g by (simp add: Book_def)
qed

end
